theory Spec2Isabelle
  imports Complex_Main "HOL-Library.List_Lexorder" "HOL-Library.Sublist" "HOL-Library.AList"
    "HOL-Library.Multiset"
begin

section \<open>Python values the code computes with\<close>

text \<open>
  A Python \<open>str\<close> is a sequence of Unicode code points; it is modelled as a list of
  natural numbers, so that \<open>in\<close>, \<open>strip\<close>, \<open>replace\<close> and \<open>sorted\<close> act on code points as
  they do in Python. \<open>asc\<close> turns an ASCII literal into such a string; the CJK literals of
  the source are written as their code points.

  A Python \<open>float\<close> is modelled as a rational number: arithmetic is exact, there is no
  infinity and no NaN. On the inputs evaluated below (small integers and two-digit
  decimals) binary floating point gives the same results.

  Of the built-ins, \<open>str.upper\<close>, the regular expression class \<open>\d\<close> and the flag
  \<open>re.IGNORECASE\<close> are modelled on ASCII letters and digits (code points outside ASCII
  are left unchanged, respectively not matched), and \<open>float()\<close> on decimal literals with
  an optional sign, fraction and exponent (digit-group underscores and the literals
  \<open>inf\<close> and \<open>nan\<close> are not modelled).
\<close>

type_synonym str = "nat list"

definition asc :: "string \<Rightarrow> str" where
  "asc s = map of_char s"

definition isspace :: "nat \<Rightarrow> bool" where
  "isspace c = ((9 \<le> c \<and> c \<le> 13) \<or> (28 \<le> c \<and> c \<le> 32) \<or> c = 133 \<or> c = 160 \<or> c = 5760
     \<or> (8192 \<le> c \<and> c \<le> 8202) \<or> c = 8232 \<or> c = 8233 \<or> c = 8239 \<or> c = 8287 \<or> c = 12288)"

definition isdigit :: "nat \<Rightarrow> bool" where
  "isdigit c = (48 \<le> c \<and> c \<le> 57)"

definition strip :: "str \<Rightarrow> str" where
  "strip s = rev (dropWhile isspace (rev (dropWhile isspace s)))"

definition upper_char :: "nat \<Rightarrow> nat" where
  "upper_char c = (if 97 \<le> c \<and> c \<le> 122 then c - 32 else c)"

definition upper :: "str \<Rightarrow> str" where
  "upper s = map upper_char s"

text \<open>\<open>contains sub s\<close> is Python's \<open>sub in s\<close>.\<close>

fun contains :: "str \<Rightarrow> str \<Rightarrow> bool" where
  "contains sub [] = (sub = [])"
| "contains sub (c # cs) = (prefix sub (c # cs) \<or> contains sub cs)"

text \<open>\<open>s.replace(",", "")\<close>.\<close>

definition replace_comma :: "str \<Rightarrow> str" where
  "replace_comma s = filter (\<lambda>c. c \<noteq> 44) s"

definition digits_value :: "str \<Rightarrow> nat" where
  "digits_value ds = foldl (\<lambda>a c. 10 * a + (c - 48)) 0 ds"

text \<open>The exponent part of a float literal: nothing, or \<open>e\<close>/\<open>E\<close>, an optional sign and digits.\<close>

definition float_exponent :: "str \<Rightarrow> int option" where
  "float_exponent s =
     (case s of
        [] \<Rightarrow> Some 0
      | c # r \<Rightarrow>
          if c = 101 \<or> c = 69 then
            (let neg = (r \<noteq> [] \<and> hd r = 45);
                 r1 = (if r \<noteq> [] \<and> (hd r = 45 \<or> hd r = 43) then tl r else r)
             in if r1 \<noteq> [] \<and> list_all isdigit r1
                then Some (if neg then - int (digits_value r1) else int (digits_value r1))
                else None)
          else None)"

text \<open>
  \<open>float(s)\<close>: surrounding whitespace is ignored; \<open>None\<close> stands for the \<open>ValueError\<close>
  that Python raises on a string that is not a number.
\<close>

definition float_of_str :: "str \<Rightarrow> rat option" where
  "float_of_str s0 =
     (let s = strip s0;
          neg = (s \<noteq> [] \<and> hd s = 45);
          s1 = (if s \<noteq> [] \<and> (hd s = 45 \<or> hd s = 43) then tl s else s);
          ip = takeWhile isdigit s1;
          r1 = dropWhile isdigit s1;
          dot = (r1 \<noteq> [] \<and> hd r1 = 46);
          fp = (if dot then takeWhile isdigit (tl r1) else []);
          r2 = (if dot then dropWhile isdigit (tl r1) else r1)
      in if ip = [] \<and> fp = [] then None
         else (case float_exponent r2 of
                 None \<Rightarrow> None
               | Some e \<Rightarrow>
                   (let m = of_nat (digits_value (ip @ fp)) / 10 ^ length fp;
                        v = (if 0 \<le> e then m * 10 ^ nat e else m / 10 ^ nat (- e))
                    in Some (if neg then - v else v))))"

text \<open>
  \<open>round(x, 2)\<close>: the nearest multiple of 1/100, a tie going to the even neighbour.
\<close>

definition round2 :: "rat \<Rightarrow> rat" where
  "round2 x =
     (let y = x * 100; f = \<lfloor>y\<rfloor>; d = y - of_int f
      in of_int (if d < 1 / 2 then f else if 1 / 2 < d then f + 1
                 else if even f then f else f + 1) / 100)"

datatype error = IndexError | ValueError | ValidationError | ParserError

section \<open>The ledger: \<open>SheetsLedger.update_portfolio_summary\<close>\<close>

text \<open>
  \<open>src/integrations/sheets_ledger.py\<close>, lines 228 to 320. The sheet's rows are lists of
  cell strings; the first row holds the headers.
\<close>

record cols =
  idx_time :: nat
  idx_code :: nat
  idx_name :: nat
  idx_action :: nat
  idx_qty :: nat
  idx_price :: nat
  idx_amt :: nat

definition index_of :: "'a \<Rightarrow> 'a list \<Rightarrow> nat" where
  "index_of x xs = length (takeWhile (\<lambda>y. y \<noteq> x) xs)"

fun find_col :: "str list \<Rightarrow> str list \<Rightarrow> nat \<Rightarrow> nat" where
  "find_col headers [] default_idx = default_idx"
| "find_col headers (nm # names) default_idx =
     (if nm \<in> set headers then index_of nm headers else find_col headers names default_idx)"

definition resolve_cols :: "str list \<Rightarrow> cols" where
  "resolve_cols headers =
     \<lparr>idx_time = find_col headers [asc ''Trade Time'', asc ''Date''] 0,
      idx_code = find_col headers [asc ''Stock Code'', asc ''Stock Symbol'', asc ''Symbol''] 1,
      idx_name = find_col headers [asc ''Stock Name'', asc ''Name''] 2,
      idx_action = find_col headers [asc ''Action'', asc ''Side''] 3,
      idx_qty = find_col headers [asc ''Shares'', asc ''Quantity''] 4,
      idx_price = find_col headers [asc ''Unit Price'', asc ''Price''] 5,
      idx_amt = find_col headers [asc ''Total Amount'', asc ''Amount''] 6\<rparr>"

text \<open>The per-symbol dictionary entry, and the dictionary in insertion order.\<close>

record holding =
  name :: str
  buy_qty :: rat
  buy_amt :: rat
  sell_qty :: rat
  sell_amt :: rat
  realized_pl :: rat

record agg_state =
  portfolio :: "(str \<times> holding) list"
  total_realized_pl :: rat

definition init_state :: agg_state where
  "init_state = \<lparr>portfolio = [], total_realized_pl = 0\<rparr>"

text \<open>
  What lines 249 to 258 read from one row: \<open>Inr None\<close> is \<open>continue\<close> (row too short, or
  a number that does not parse), \<open>Inl IndexError\<close> is the exception of \<open>row[idx_name]\<close>
  when the name column lies beyond the row, which leaves the loop.
\<close>

record ledger_row =
  r_code :: str
  r_name :: str
  r_action :: str
  r_qty :: rat
  r_amt :: rat

definition read_row :: "cols \<Rightarrow> str list \<Rightarrow> error + ledger_row option" where
  "read_row ix row =
     (if length row \<le> max (max (idx_code ix) (idx_action ix)) (max (idx_qty ix) (idx_amt ix))
      then Inr None
      else if length row \<le> idx_name ix then Inl IndexError
      else (case float_of_str (replace_comma (row ! idx_qty ix)) of
              None \<Rightarrow> Inr None
            | Some qty \<Rightarrow>
                (case float_of_str (replace_comma (row ! idx_amt ix)) of
                   None \<Rightarrow> Inr None
                 | Some amt \<Rightarrow>
                     Inr (Some \<lparr>r_code = strip (row ! idx_code ix),
                                r_name = strip (row ! idx_name ix),
                                r_action = upper (strip (row ! idx_action ix)),
                                r_qty = qty, r_amt = amt\<rparr>))))"

definition new_holding :: "str \<Rightarrow> holding" where
  "new_holding nm =
     \<lparr>name = nm, buy_qty = 0, buy_amt = 0, sell_qty = 0, sell_amt = 0, realized_pl = 0\<rparr>"

text \<open>
  Lines 260 to 283: the entry of the row's code is created when absent, renamed when the
  row has a name, and updated by a BUY or a SELL row. U+8CB7 and U+8CE3 are the localized
  buy and sell glyphs.
\<close>

definition apply_row :: "agg_state \<Rightarrow> ledger_row \<Rightarrow> agg_state" where
  "apply_row st r =
     (let d0 = (case map_of (portfolio st) (r_code r) of
                  None \<Rightarrow> new_holding (r_name r)
                | Some d \<Rightarrow> d);
          d = (if r_name r \<noteq> [] then d0\<lparr>name := r_name r\<rparr> else d0)
      in if contains (asc ''BUY'') (r_action r) \<or> contains [0x8CB7] (r_action r) then
           st\<lparr>portfolio :=
                AList.update (r_code r)
                  (d\<lparr>buy_qty := buy_qty d + r_qty r, buy_amt := buy_amt d + r_amt r\<rparr>)
                  (portfolio st)\<rparr>
         else if contains (asc ''SELL'') (r_action r) \<or> contains [0x8CE3] (r_action r) then
           (let avg_buy_before = (if 0 < buy_qty d then buy_amt d / buy_qty d else 0);
                current_sale_price = (if 0 < r_qty r then r_amt r / r_qty r else 0);
                profit = (current_sale_price - avg_buy_before) * r_qty r
            in \<lparr>portfolio =
                   AList.update (r_code r)
                     (d\<lparr>realized_pl := realized_pl d + profit,
                        sell_qty := sell_qty d + r_qty r, sell_amt := sell_amt d + r_amt r\<rparr>)
                     (portfolio st),
                 total_realized_pl = total_realized_pl st + profit\<rparr>)
         else st\<lparr>portfolio := AList.update (r_code r) d (portfolio st)\<rparr>)"

definition process_row :: "cols \<Rightarrow> agg_state \<Rightarrow> str list \<Rightarrow> error + agg_state" where
  "process_row ix st row =
     (case read_row ix row of
        Inl e \<Rightarrow> Inl e
      | Inr None \<Rightarrow> Inr st
      | Inr (Some r) \<Rightarrow> Inr (apply_row st r))"

fun process_rows :: "cols \<Rightarrow> agg_state \<Rightarrow> str list list \<Rightarrow> error + agg_state" where
  "process_rows ix st [] = Inr st"
| "process_rows ix st (row # rows) =
     (case process_row ix st row of
        Inl e \<Rightarrow> Inl e
      | Inr st' \<Rightarrow> process_rows ix st' rows)"

text \<open>Lines 287 to 291: the codes whose price is fetched.\<close>

definition codes :: "(str \<times> holding) list \<Rightarrow> str list" where
  "codes p = map fst (filter (\<lambda>(c, d). buy_qty d - sell_qty d \<noteq> 0 \<or> realized_pl d \<noteq> 0) p)"

text \<open>
  Lines 299 to 320: one dashboard row per shown code, in the order of the sorted codes. The
  two formula cells of a row (unrealized P/L and its percentage) are spreadsheet formulas
  over the other cells and are left out.
\<close>

record summary_row =
  s_code :: str
  s_name :: str
  s_net_qty :: rat
  s_avg_buy :: rat
  s_live_price :: rat
  s_realized_pl :: rat

definition summary_of :: "(str \<Rightarrow> rat) \<Rightarrow> str list \<Rightarrow> str \<times> holding \<Rightarrow> summary_row" where
  "summary_of price_for fetched cd =
     \<lparr>s_code = fst cd, s_name = name (snd cd),
      s_net_qty = buy_qty (snd cd) - sell_qty (snd cd),
      s_avg_buy = (if 0 < buy_qty (snd cd) then buy_amt (snd cd) / buy_qty (snd cd) else 0),
      s_live_price = (if fst cd \<in> set fetched then price_for (fst cd) else 0),
      s_realized_pl = realized_pl (snd cd)\<rparr>"

definition summary_rows :: "(str \<Rightarrow> rat) \<Rightarrow> (str \<times> holding) list \<Rightarrow> summary_row list" where
  "summary_rows price_for p =
     map (summary_of price_for (codes p))
       (filter (\<lambda>(c, d). 0 < buy_qty d - sell_qty d \<or> realized_pl d \<noteq> 0) (sort_key fst p))"

text \<open>
  The function up to the dashboard rows: \<open>NoData\<close> is the early return on a sheet without
  data rows, \<open>Failed\<close> the exception caught by the handler at the end of the function.
\<close>

datatype outcome = NoData | Failed error | Dashboard "summary_row list" rat

definition update_portfolio_summary :: "(str \<Rightarrow> rat) \<Rightarrow> str list list \<Rightarrow> outcome" where
  "update_portfolio_summary price_for rows =
     (if rows = [] \<or> length rows < 2 then NoData
      else (case process_rows (resolve_cols (hd rows)) init_state (tl rows) of
              Inl e \<Rightarrow> Failed e
            | Inr st \<Rightarrow> Dashboard (summary_rows price_for (portfolio st)) (total_realized_pl st)))"


section \<open>The trade record: \<open>src/models/trade_model.py\<close>\<close>

text \<open>
  The module takes \<open>BaseModel\<close> and \<open>Field\<close> from pydantic, or defines a fallback of its own
  when the import fails. \<open>Pydantic\<close> checks the declared constraints \<open>gt=0\<close> of
  \<open>quantity\<close> and \<open>price\<close> and raises a \<open>ValidationError\<close>; the fallback \<open>Field\<close>
  drops them.
\<close>

datatype backend = Pydantic | Fallback

record datetime =
  dt_year :: nat
  dt_month :: nat
  dt_day :: nat
  dt_hour :: nat
  dt_minute :: nat
  dt_second :: nat

record Trade =
  symbol :: str
  stock_name :: "str option"
  side :: str
  quantity :: rat
  price :: rat
  date :: datetime
  total_amount :: rat
  broker :: str
  order_id :: "str option"

text \<open>
  \<open>Trade(...)\<close>. The callers' defaults are passed in: \<open>date\<close> is \<open>datetime.now()\<close> and
  \<open>broker\<close> is \<open>Unknown\<close> when the keyword is not given. \<open>total_amount\<close> is the keyword
  as given, or \<open>None\<close>; \<open>__init__\<close> then sets it to \<open>round(quantity * price, 2)\<close>.
\<close>

definition Trade_init ::
  "backend \<Rightarrow> str \<Rightarrow> str option \<Rightarrow> str \<Rightarrow> rat \<Rightarrow> rat \<Rightarrow> datetime \<Rightarrow> rat option \<Rightarrow> str \<Rightarrow>
     str option \<Rightarrow> error + Trade" where
  "Trade_init b sy nm sd qty pr dt tot br oid =
     (if b = Pydantic \<and> (qty \<le> 0 \<or> pr \<le> 0) then Inl ValidationError
      else Inr \<lparr>symbol = sy, stock_name = nm, side = sd, quantity = qty, price = pr,
                date = dt,
                total_amount = (case tot of None \<Rightarrow> round2 (qty * pr) | Some t \<Rightarrow> t),
                broker = br, order_id = oid\<rparr>)"

section \<open>The parser: \<open>src/core/parser.py\<close>\<close>

subsection \<open>Regular expressions and \<open>strptime\<close>\<close>

text \<open>\<open>re.search\<close>: the match at the leftmost position that has one.\<close>

fun re_search :: "(str \<Rightarrow> 'a option) \<Rightarrow> str \<Rightarrow> 'a option" where
  "re_search m [] = m []"
| "re_search m (c # cs) = (case m (c # cs) of Some g \<Rightarrow> Some g | None \<Rightarrow> re_search m cs)"

text \<open>\<open>\d{1,2}\<close> followed by the literal \<open>t\<close>: the digits and the rest of the string.\<close>

fun digits_upto2 :: "nat \<Rightarrow> str \<Rightarrow> (str \<times> str) option" where
  "digits_upto2 t (a # b # c # r) =
     (if isdigit a \<and> isdigit b \<and> c = t then Some ([a, b], r)
      else if isdigit a \<and> b = t then Some ([a], c # r)
      else None)"
| "digits_upto2 t [a, b] = (if isdigit a \<and> b = t then Some ([a], []) else None)"
| "digits_upto2 t [a] = None"
| "digits_upto2 t [] = None"

text \<open>
  The date pattern of the subject, four digits, U+5E74, one or two digits, U+6708, one or
  two digits, U+65E5, matched at the start of \<open>s\<close>: the three groups.
\<close>

definition match_date :: "str \<Rightarrow> (str \<times> str \<times> str) option" where
  "match_date s =
     (if 5 \<le> length s \<and> list_all isdigit (take 4 s) \<and> s ! 4 = 0x5E74 then
        (case digits_upto2 0x6708 (drop 5 s) of
           None \<Rightarrow> None
         | Some (m, r) \<Rightarrow>
             (case digits_upto2 0x65E5 r of
                None \<Rightarrow> None
              | Some (d, r') \<Rightarrow> Some (take 4 s, m, d)))
      else None)"

text \<open>\<open>s.zfill(2)\<close> on a string of digits.\<close>

definition zfill2 :: "str \<Rightarrow> str" where
  "zfill2 s = replicate (2 - length s) 48 @ s"

text \<open>
  \<open>datetime.strptime(s, "%Y-%m-%d %H:%M:%S")\<close>. The library turns the format into a
  regular expression, one group of alternatives per directive and \<open>\s+\<close> for the blank,
  takes the first match in the order of the alternatives, and raises \<open>ValueError\<close> when
  there is none, when it does not reach the end of the string, or when the numbers are not
  a date and a time of day. The parsers below list the matches of a directive at the start
  of a string, each with the rest, in that order.
\<close>

definition in_range :: "nat \<Rightarrow> nat \<Rightarrow> nat \<Rightarrow> bool" where
  "in_range lo hi c = (lo \<le> c \<and> c \<le> hi)"

definition two_chars :: "(nat \<Rightarrow> bool) \<Rightarrow> (nat \<Rightarrow> bool) \<Rightarrow> str \<Rightarrow> (nat \<times> str) list" where
  "two_chars A B s =
     (case s of
        a # b # r \<Rightarrow> if A a \<and> B b then [(10 * (a - 48) + (b - 48), r)] else []
      | _ \<Rightarrow> [])"

definition one_char :: "(nat \<Rightarrow> bool) \<Rightarrow> str \<Rightarrow> (nat \<times> str) list" where
  "one_char A s = (case s of a # r \<Rightarrow> if A a then [(a - 48, r)] else [] | [] \<Rightarrow> [])"

definition lit :: "nat \<Rightarrow> str \<Rightarrow> str list" where
  "lit c s = (case s of a # r \<Rightarrow> if a = c then [r] else [] | [] \<Rightarrow> [])"

definition spaces1 :: "str \<Rightarrow> str list" where
  "spaces1 s = map (\<lambda>k. drop k s) (rev [1 ..< Suc (length (takeWhile isspace s))])"

definition fmt_Y :: "str \<Rightarrow> (nat \<times> str) list" where
  "fmt_Y s = (if 4 \<le> length s \<and> list_all isdigit (take 4 s)
              then [(digits_value (take 4 s), drop 4 s)] else [])"

definition fmt_m :: "str \<Rightarrow> (nat \<times> str) list" where
  "fmt_m s = two_chars (in_range 49 49) (in_range 48 50) s @ two_chars (in_range 48 48) (in_range 49 57) s
     @ one_char (in_range 49 57) s"

definition fmt_d :: "str \<Rightarrow> (nat \<times> str) list" where
  "fmt_d s = two_chars (in_range 51 51) (in_range 48 49) s @ two_chars (in_range 49 50) isdigit s
     @ two_chars (in_range 48 48) (in_range 49 57) s @ one_char (in_range 49 57) s
     @ concat (map (one_char (in_range 49 57)) (lit 32 s))"

definition fmt_H :: "str \<Rightarrow> (nat \<times> str) list" where
  "fmt_H s = two_chars (in_range 50 50) (in_range 48 51) s @ two_chars (in_range 48 49) isdigit s
     @ one_char isdigit s"

definition fmt_M :: "str \<Rightarrow> (nat \<times> str) list" where
  "fmt_M s = two_chars (in_range 48 53) isdigit s @ one_char isdigit s"

definition fmt_S :: "str \<Rightarrow> (nat \<times> str) list" where
  "fmt_S s = two_chars (in_range 54 54) (in_range 48 49) s @ two_chars (in_range 48 53) isdigit s
     @ one_char isdigit s"

definition strptime_matches :: "str \<Rightarrow> (datetime \<times> str) list" where
  "strptime_matches s =
     [(\<lparr>dt_year = y, dt_month = m, dt_day = d, dt_hour = H, dt_minute = M, dt_second = S\<rparr>, r11).
        (y, r1) \<leftarrow> fmt_Y s, r2 \<leftarrow> lit 45 r1, (m, r3) \<leftarrow> fmt_m r2, r4 \<leftarrow> lit 45 r3,
        (d, r5) \<leftarrow> fmt_d r4, r6 \<leftarrow> spaces1 r5, (H, r7) \<leftarrow> fmt_H r6, r8 \<leftarrow> lit 58 r7,
        (M, r9) \<leftarrow> fmt_M r8, r10 \<leftarrow> lit 58 r9, (S, r11) \<leftarrow> fmt_S r10]"

definition days_in_month :: "nat \<Rightarrow> nat \<Rightarrow> nat" where
  "days_in_month y m =
     (if m = 2 then (if y mod 4 = 0 \<and> (y mod 100 \<noteq> 0 \<or> y mod 400 = 0) then 29 else 28)
      else if m = 4 \<or> m = 6 \<or> m = 9 \<or> m = 11 then 30 else 31)"

definition strptime :: "str \<Rightarrow> error + datetime" where
  "strptime s =
     (case strptime_matches s of
        [] \<Rightarrow> Inl ValueError
      | (dt, r) # alts \<Rightarrow>
          if r \<noteq> [] then Inl ValueError
          else if dt_year dt < 1 \<or> days_in_month (dt_year dt) (dt_month dt) < dt_day dt
                  \<or> 59 < dt_second dt
          then Inl ValueError
          else Inr dt)"

subsection \<open>The tabular report\<close>

text \<open>
  \<open>re.match(r"^\d+\.?\d*$", s)\<close>: digits, an optional point, digits, up to the end of the
  string or to a final newline.
\<close>

definition numeric_like :: "str \<Rightarrow> bool" where
  "numeric_like s =
     (let r1 = dropWhile isdigit s;
          r2 = (case r1 of c # r \<Rightarrow> if c = 46 then r else r1 | [] \<Rightarrow> r1);
          r3 = dropWhile isdigit r2
      in takeWhile isdigit s \<noteq> [] \<and> (r3 = [] \<or> r3 = [10]))"

text \<open>
  \<open>re.match(r"(\d+)(.*)", symbol_full)\<close> and the two branches after it: the leading digits
  and the stripped rest of the line, or the whole cell and the empty name.
\<close>

definition split_symbol :: "str \<Rightarrow> str \<times> str" where
  "split_symbol symbol_full =
     (if takeWhile isdigit symbol_full \<noteq> []
      then (takeWhile isdigit symbol_full,
            strip (takeWhile (\<lambda>c. c \<noteq> 10) (dropWhile isdigit symbol_full)))
      else (symbol_full, []))"

definition fubon_broker :: str where
  "fubon_broker = asc ''Fubon Securities ('' @ [0x5BCC, 0x90A6, 0x8B49, 0x5238] @ asc '')''"

text \<open>
  The three markers of rows that are not data: U+80A1 U+7968 U+540D U+7A31 (the header
  label), U+4EE5 U+4E0A U+8CC7 U+6599 and U+91CD U+8981 U+63D0 U+793A (the notices).
\<close>

definition has_marker :: "str \<Rightarrow> bool" where
  "has_marker s = (contains [0x80A1, 0x7968, 0x540D, 0x7A31] s
     \<or> contains [0x4EE5, 0x4E0A, 0x8CC7, 0x6599] s \<or> contains [0x91CD, 0x8981, 0x63D0, 0x793A] s)"

text \<open>Lines 80 to 108, the body of the inner \<open>try\<close>, on a row of at least seven cells.\<close>

definition fubon_row_body :: "backend \<Rightarrow> str \<Rightarrow> str list \<Rightarrow> str \<Rightarrow> str \<Rightarrow> error + Trade" where
  "fubon_row_body b report_date texts qty_raw price_raw =
     (case float_of_str qty_raw of
        None \<Rightarrow> Inl ValueError
      | Some qty \<Rightarrow>
          (case float_of_str price_raw of
             None \<Rightarrow> Inl ValueError
           | Some pr \<Rightarrow>
               (case strptime (report_date @ [32] @ texts ! 6) of
                  Inl e \<Rightarrow> Inl e
                | Inr full_ts \<Rightarrow>
                    Trade_init b (fst (split_symbol (texts ! 0)))
                      (Some (snd (split_symbol (texts ! 0))))
                      (if contains [0x8CE3] (texts ! 1) then asc ''SELL'' else asc ''BUY'')
                      qty pr full_ts None fubon_broker (Some (texts ! 5)))))"

text \<open>
  Lines 53 to 111, one turn of the loop: \<open>Inr None\<close> is \<open>continue\<close>, \<open>Inr (Some t)\<close> the
  appended trade. The inner handler catches \<open>ValueError\<close> (of which pydantic's
  \<open>ValidationError\<close> is a subclass) and \<open>IndexError\<close>; any other exception leaves the loop.
\<close>

definition fubon_row :: "backend \<Rightarrow> str \<Rightarrow> str list \<Rightarrow> error + Trade option" where
  "fubon_row b report_date texts =
     (if length texts < 7 then Inr None
      else if has_marker (texts ! 0) then Inr None
      else if \<not> numeric_like (replace_comma (texts ! 2))
              \<or> \<not> numeric_like (replace_comma (texts ! 3))
      then Inr None
      else (case fubon_row_body b report_date texts (replace_comma (texts ! 2))
                   (replace_comma (texts ! 3)) of
              Inr t \<Rightarrow> Inr (Some t)
            | Inl e \<Rightarrow>
                if e = ValueError \<or> e = ValidationError \<or> e = IndexError then Inr None
                else Inl e))"

fun fubon_rows :: "backend \<Rightarrow> str \<Rightarrow> str list list \<Rightarrow> Trade list \<Rightarrow> error + Trade list" where
  "fubon_rows b report_date [] trades = Inr trades"
| "fubon_rows b report_date (texts # rows) trades =
     (case fubon_row b report_date texts of
        Inl e \<Rightarrow> Inl e
      | Inr None \<Rightarrow> fubon_rows b report_date rows trades
      | Inr (Some t) \<Rightarrow> fubon_rows b report_date rows (trades @ [t]))"

text \<open>
  Lines 40 to 114, the body of the outer \<open>try\<close>. \<open>soup\<close> stands for the HTML library: the
  rows (\<open>tr\<close>) of the body in document order, each as the stripped texts of its cells
  (\<open>td\<close>, \<open>th\<close>), or the exception the library raises.
\<close>

definition parse_fubon_try ::
  "backend \<Rightarrow> (str \<Rightarrow> error + str list list) \<Rightarrow> str \<Rightarrow> str \<Rightarrow> error + Trade list" where
  "parse_fubon_try b soup subject html_body =
     (case re_search match_date subject of
        None \<Rightarrow> Inr []
      | Some (y, m, d) \<Rightarrow>
          (case soup html_body of
             Inl e \<Rightarrow> Inl e
           | Inr rows \<Rightarrow> fubon_rows b (y @ [45] @ zfill2 m @ [45] @ zfill2 d) rows []))"

text \<open>\<open>_parse_fubon_report\<close>: the outer handler turns every exception into the empty list.\<close>

definition parse_fubon_report ::
  "backend \<Rightarrow> (str \<Rightarrow> error + str list list) \<Rightarrow> str \<Rightarrow> str \<Rightarrow> error + Trade list" where
  "parse_fubon_report b soup subject html_body =
     (case parse_fubon_try b soup subject html_body of
        Inl e \<Rightarrow> Inr []
      | Inr trades \<Rightarrow> Inr trades)"

subsection \<open>The key-value text\<close>

text \<open>A literal of a pattern under \<open>re.IGNORECASE\<close>, at the start of a string: the rest.\<close>

fun match_lit :: "str \<Rightarrow> str \<Rightarrow> str option" where
  "match_lit [] s = Some s"
| "match_lit (p # ps) [] = None"
| "match_lit (p # ps) (c # cs) =
     (if upper_char p = upper_char c then match_lit ps cs else None)"

text \<open>
  A pattern \<open>(?:label|...):\s*group\<close> at the start of a string: the labels in order, the
  colon, blanks, and the group, whose match \<open>cap\<close> returns.
\<close>

fun match_labels :: "str list \<Rightarrow> (str \<Rightarrow> str option) \<Rightarrow> str \<Rightarrow> str option" where
  "match_labels [] cap s = None"
| "match_labels (l # ls) cap s =
     (case match_lit (l @ [58]) s of
        None \<Rightarrow> match_labels ls cap s
      | Some r \<Rightarrow>
          (case cap (dropWhile isspace r) of
             None \<Rightarrow> match_labels ls cap s
           | Some g \<Rightarrow> Some g))"

text \<open>A group \<open>([class]+)\<close>: the longest non-empty run of the class.\<close>

definition run_of :: "(nat \<Rightarrow> bool) \<Rightarrow> str \<Rightarrow> str option" where
  "run_of cls s = (if takeWhile cls s = [] then None else Some (takeWhile cls s))"

definition cls_alnum :: "nat \<Rightarrow> bool" where
  "cls_alnum c = (isdigit c \<or> (65 \<le> upper_char c \<and> upper_char c \<le> 90))"

definition cls_number :: "nat \<Rightarrow> bool" where
  "cls_number c = (isdigit c \<or> c = 44 \<or> c = 46)"

definition m_symbol :: "str \<Rightarrow> str option" where
  "m_symbol = match_labels [asc ''Symbol'', asc ''Ticker'', asc ''Stock''] (run_of cls_alnum)"

definition m_side :: "str \<Rightarrow> str option" where
  "m_side = match_labels [asc ''Action'', asc ''Side'', asc ''Type'']
     (\<lambda>s. if match_lit (asc ''BUY'') s \<noteq> None then Some (take 3 s)
          else if match_lit (asc ''SELL'') s \<noteq> None then Some (take 4 s)
          else None)"

definition m_quantity :: "str \<Rightarrow> str option" where
  "m_quantity = match_labels [asc ''Quantity'', asc ''Qty'', asc ''Shares''] (run_of cls_number)"

definition m_price :: "str \<Rightarrow> str option" where
  "m_price = match_labels [asc ''Price'', asc ''Cost'']
     (\<lambda>s. run_of cls_number (if s \<noteq> [] \<and> hd s = 36 then tl s else s))"

definition m_order_id :: "str \<Rightarrow> str option" where
  "m_order_id = match_labels [asc ''Order ID'', asc ''Ref'']
     (run_of (\<lambda>c. cls_alnum c \<or> c = 45))"

text \<open>\<open>extracted[key] = match.group(1).strip()\<close> for one key.\<close>

definition extracted :: "(str \<Rightarrow> str option) \<Rightarrow> str \<Rightarrow> str option" where
  "extracted m txt = map_option strip (re_search m txt)"

text \<open>Lines 124 to 139, the body of the \<open>try\<close> of \<open>_parse_regex\<close>.\<close>

definition parse_regex_try :: "backend \<Rightarrow> datetime \<Rightarrow> str \<Rightarrow> error + Trade option" where
  "parse_regex_try b now txt =
     (case extracted m_symbol txt of
        None \<Rightarrow> Inr None
      | Some sy \<Rightarrow>
     (case extracted m_side txt of
        None \<Rightarrow> Inr None
      | Some sd \<Rightarrow>
     (case extracted m_quantity txt of
        None \<Rightarrow> Inr None
      | Some q \<Rightarrow>
     (case extracted m_price txt of
        None \<Rightarrow> Inr None
      | Some p \<Rightarrow>
     (case float_of_str (replace_comma q) of
        None \<Rightarrow> Inl ValueError
      | Some qty \<Rightarrow>
     (case float_of_str (replace_comma p) of
        None \<Rightarrow> Inl ValueError
      | Some pr \<Rightarrow>
     (case Trade_init b (upper sy) None (upper sd) qty pr now None (asc ''Unknown'')
             (extracted m_order_id txt) of
        Inl e \<Rightarrow> Inl e
      | Inr t \<Rightarrow> Inr (Some t))))))))"

text \<open>\<open>_parse_regex\<close>: the handler turns every exception into \<open>None\<close>.\<close>

definition parse_regex :: "backend \<Rightarrow> datetime \<Rightarrow> str \<Rightarrow> error + Trade option" where
  "parse_regex b now txt =
     (case parse_regex_try b now txt of
        Inl e \<Rightarrow> Inr None
      | Inr t \<Rightarrow> Inr t)"

text \<open>
  \<open>TradeParser.parse\<close>. The broker marker is U+5BCC U+90A6 U+8B49 U+5238. \<open>now\<close> is the
  clock read by \<open>datetime.now()\<close>. An \<open>Inl\<close> result is an exception that reaches the
  caller.
\<close>

definition parse ::
  "backend \<Rightarrow> (str \<Rightarrow> error + str list list) \<Rightarrow> datetime \<Rightarrow> str \<Rightarrow> str \<Rightarrow> error + Trade list"
  where
  "parse b soup now subject body =
     (if contains [0x5BCC, 0x90A6, 0x8B49, 0x5238] subject
      then parse_fubon_report b soup subject body
      else (case parse_regex b now body of
              Inl e \<Rightarrow> Inl e
            | Inr trade \<Rightarrow> Inr (case trade of Some t \<Rightarrow> [t] | None \<Rightarrow> [])))"

section \<open>Notions of the specification, for the ledger\<close>

text \<open>
  The rows the loop reads from a sheet, in order; an \<open>IndexError\<close> on one row is the
  result for the whole sheet.
\<close>

fun read_rows :: "cols \<Rightarrow> str list list \<Rightarrow> error + ledger_row list" where
  "read_rows ix [] = Inr []"
| "read_rows ix (row # rows) =
     (case read_row ix row of
        Inl e \<Rightarrow> Inl e
      | Inr ro \<Rightarrow>
          (case read_rows ix rows of
             Inl e \<Rightarrow> Inl e
           | Inr rs \<Rightarrow> Inr (case ro of None \<Rightarrow> rs | Some r \<Rightarrow> r # rs)))"









section \<open>A sample sheet\<close>

definition ex_hdr :: "str list" where
  "ex_hdr = [asc ''Trade Time'', asc ''Stock Code'', asc ''Stock Name'', asc ''Action'',
             asc ''Shares'', asc ''Unit Price'', asc ''Total Amount'', asc ''Order ID'',
             asc ''Broker'']"

definition ex_row :: "string \<Rightarrow> string \<Rightarrow> string \<Rightarrow> string \<Rightarrow> str list" where
  "ex_row action qty unit_price amt =
     [asc ''2026-01-19 09:40:05'', asc ''2344'', asc ''Winbond'', asc action, asc qty,
      asc unit_price, asc amt, asc ''ABC123'', asc ''Fubon'']"

definition std_cols :: cols where
  "std_cols = \<lparr>idx_time = 0, idx_code = 1, idx_name = 2, idx_action = 3, idx_qty = 4,
                idx_price = 5, idx_amt = 6\<rparr>"

definition ex_ledger_row :: "string \<Rightarrow> rat \<Rightarrow> rat \<Rightarrow> ledger_row" where
  "ex_ledger_row action qty amt =
     \<lparr>r_code = asc ''2344'', r_name = asc ''Winbond'', r_action = asc action,
      r_qty = qty, r_amt = amt\<rparr>"

definition ex_holding :: "rat \<Rightarrow> rat \<Rightarrow> rat \<Rightarrow> rat \<Rightarrow> rat \<Rightarrow> holding" where
  "ex_holding bq ba sq sa pl =
     \<lparr>name = asc ''Winbond'', buy_qty = bq, buy_amt = ba, sell_qty = sq, sell_amt = sa,
      realized_pl = pl\<rparr>"

definition ex_summary :: "rat \<Rightarrow> rat \<Rightarrow> rat \<Rightarrow> summary_row" where
  "ex_summary net avg pl =
     \<lparr>s_code = asc ''2344'', s_name = asc ''Winbond'', s_net_qty = net, s_avg_buy = avg,
      s_live_price = 0, s_realized_pl = pl\<rparr>"

section \<open>Notions of the specification, for the parser\<close>



definition row_trade :: "backend \<Rightarrow> str \<Rightarrow> str list \<Rightarrow> Trade option" where
  "row_trade b report_date texts =
     (case fubon_row b report_date texts of Inl e \<Rightarrow> None | Inr t \<Rightarrow> t)"


section \<open>Sample messages\<close>

text \<open>
  The subject is the broker marker, \<open> ... 2026\<close>, U+5E74, \<open>1\<close>, U+6708, \<open>19\<close>, U+65E5; the
  first cell of the row is \<open>2344\<close> U+83EF U+90A6 U+96FB, the second U+73FE U+8CE3.
\<close>

definition ex_subject :: str where
  "ex_subject = [0x5BCC, 0x90A6, 0x8B49, 0x5238] @ asc '' ... 2026'' @ [0x5E74] @ asc ''1''
     @ [0x6708] @ asc ''19'' @ [0x65E5]"

definition ex_report_row :: "str list" where
  "ex_report_row = [asc ''2344'' @ [0x83EF, 0x90A6, 0x96FB], [0x73FE, 0x8CE3], asc ''50'',
     asc ''117.00'', asc ''X'', asc ''ABC123'', asc ''09:40:05'']"

definition ex_trade :: Trade where
  "ex_trade = \<lparr>symbol = asc ''2344'', stock_name = Some [0x83EF, 0x90A6, 0x96FB],
     side = asc ''SELL'', quantity = 50, price = 117,
     date = \<lparr>dt_year = 2026, dt_month = 1, dt_day = 19, dt_hour = 9, dt_minute = 40,
              dt_second = 5\<rparr>,
     total_amount = 5850, broker = fubon_broker, order_id = Some (asc ''ABC123'')\<rparr>"



definition ex_subject_undated :: str where
  "ex_subject_undated = [0x5BCC, 0x90A6, 0x8B49, 0x5238] @ asc '' 2026-01-19''"

definition ex_now :: datetime where
  "ex_now = \<lparr>dt_year = 2026, dt_month = 1, dt_day = 20, dt_hour = 8, dt_minute = 0, dt_second = 0\<rparr>"

definition ex_text_zero :: str where
  "ex_text_zero = asc ''Symbol: AB'' @ [10] @ asc ''Side: BUY'' @ [10] @ asc ''Quantity: 0'' @ [10]
     @ asc ''Price: 5''"

definition ex_text :: str where
  "ex_text = asc ''Symbol: abc'' @ [10] @ asc ''Action: Sell'' @ [10] @ asc ''Qty: 1,000'' @ [10]
     @ asc ''Price: $5.00'' @ [10] @ asc ''Ref: A-1''"

section \<open>Evaluating the sample sheet\<close>

lemmas eval_str = asc_def strip_def isspace_def isdigit_def upper_def upper_char_def
  replace_comma_def digits_value_def float_exponent_def float_of_str_def Let_def

lemma ex_cols: "resolve_cols ex_hdr = std_cols"
  by (simp add: resolve_cols_def ex_hdr_def std_cols_def index_of_def asc_def)



lemma read_buy_10_100: "read_row std_cols (ex_row ''BUY'' ''10'' ''10'' ''100'') =
    Inr (Some (ex_ledger_row ''BUY'' 10 100))"
  by (simp add: read_row_def std_cols_def ex_row_def ex_ledger_row_def eval_str)

lemma read_buy_10_200: "read_row std_cols (ex_row ''BUY'' ''10'' ''20'' ''200'') =
    Inr (Some (ex_ledger_row ''BUY'' 10 200))"
  by (simp add: read_row_def std_cols_def ex_row_def ex_ledger_row_def eval_str)

lemma read_sell_10_150: "read_row std_cols (ex_row ''SELL'' ''10'' ''15'' ''150'') =
    Inr (Some (ex_ledger_row ''SELL'' 10 150))"
  by (simp add: read_row_def std_cols_def ex_row_def ex_ledger_row_def eval_str)

lemma read_sell_20_200: "read_row std_cols (ex_row ''SELL'' ''20'' ''10'' ''200'') =
    Inr (Some (ex_ledger_row ''SELL'' 20 200))"
  by (simp add: read_row_def std_cols_def ex_row_def ex_ledger_row_def eval_str)

lemma read_dividend: "read_row std_cols (ex_row ''Dividend'' ''5'' ''1'' ''5'') =
    Inr (Some (ex_ledger_row ''DIVIDEND'' 5 5))"
  by (simp add: read_row_def std_cols_def ex_row_def ex_ledger_row_def eval_str)

lemmas eval_row = apply_row_def init_state_def new_holding_def ex_ledger_row_def
  ex_holding_def asc_def



lemma summary_single:
  "summary_rows price_for [(c, d)] =
     (if 0 < buy_qty d - sell_qty d \<or> realized_pl d \<noteq> 0
      then [\<lparr>s_code = c, s_name = name d, s_net_qty = buy_qty d - sell_qty d,
             s_avg_buy = (if 0 < buy_qty d then buy_amt d / buy_qty d else 0),
             s_live_price = price_for c, s_realized_pl = realized_pl d\<rparr>]
      else [])"
  by (auto simp: summary_rows_def summary_of_def codes_def)


section \<open>The fold over the rows\<close>

lemma process_rows_read_rows:
  "process_rows ix st rows = Inr st' \<longleftrightarrow>
     (\<exists>rs. read_rows ix rows = Inr rs \<and> st' = foldl apply_row st rs)"
proof (induction rows arbitrary: st)
  case Nil
  show ?case by auto
next
  case (Cons row rows)
  show ?case
  proof (cases "read_row ix row")
    case (Inl e)
    then show ?thesis by (simp add: process_row_def)
  next
    case (Inr ro)
    then show ?thesis
      using Cons.IH [of st] Cons.IH [of "apply_row st (the ro)"]
      by (cases ro; cases "read_rows ix rows") (auto simp: process_row_def)
  qed
qed

lemma apply_row_other:
  "c \<noteq> r_code r \<Longrightarrow> map_of (portfolio (apply_row st r)) c = map_of (portfolio st) c"
  by (simp add: apply_row_def Let_def update_conv')





















section \<open>Which symbols the dashboard shows\<close>

text \<open>
  What the two filters of the function keep, on a dictionary with distinct keys: the price
  list \<open>codes\<close> keeps a code whose net quantity or realized P/L is non-zero, the dashboard
  loop a code whose net quantity is positive or whose realized P/L is non-zero.
\<close>

lemma summary_rows_shown:
  assumes "distinct (map fst p)"
  shows "c \<in> set (map s_code (summary_rows price_for p)) \<longleftrightarrow>
     (\<exists>d. map_of p c = Some d \<and> (0 < buy_qty d - sell_qty d \<or> realized_pl d \<noteq> 0))"
  using assms by (force simp: summary_rows_def summary_of_def image_iff)

lemma codes_fetched:
  assumes "distinct (map fst p)"
  shows "c \<in> set (codes p) \<longleftrightarrow>
     (\<exists>d. map_of p c = Some d \<and> (buy_qty d - sell_qty d \<noteq> 0 \<or> realized_pl d \<noteq> 0))"
  using assms by (force simp: codes_def image_iff)

lemma run_oversold:
  "process_rows std_cols init_state
       [ex_row ''BUY'' ''10'' ''10'' ''100'', ex_row ''SELL'' ''20'' ''10'' ''200''] =
     Inr \<lparr>portfolio = [(asc ''2344'', ex_holding 10 100 20 200 0)], total_realized_pl = 0\<rparr>"
  by (simp add: process_row_def read_buy_10_100 read_sell_20_200 eval_row)

text \<open>
  C3. The claim (a symbol is shown if and only if its net quantity or its realized P/L is
  non-zero) fails on the sheet BUY 10 for 100, SELL 20 for 200: the entry has net quantity
  -10 and realized P/L 0, the price list \<open>codes\<close> of lines 287 to 291 holds the code, and the
  dashboard has no row for it, since the loop of lines 299 to 320 tests \<open>net_qty > 0\<close>.
\<close>

theorem C3_oversold_symbol_not_shown:
  "update_portfolio_summary (\<lambda>c. 0)
       [ex_hdr, ex_row ''BUY'' ''10'' ''10'' ''100'', ex_row ''SELL'' ''20'' ''10'' ''200''] =
     Dashboard [] 0
   \<and> process_rows (resolve_cols ex_hdr) init_state
       [ex_row ''BUY'' ''10'' ''10'' ''100'', ex_row ''SELL'' ''20'' ''10'' ''200''] =
     Inr \<lparr>portfolio = [(asc ''2344'', ex_holding 10 100 20 200 0)], total_realized_pl = 0\<rparr>
   \<and> buy_qty (ex_holding 10 100 20 200 0) - sell_qty (ex_holding 10 100 20 200 0) = - 10
   \<and> realized_pl (ex_holding 10 100 20 200 0) = 0
   \<and> codes [(asc ''2344'', ex_holding 10 100 20 200 0)] = [asc ''2344'']"
proof -
  have "update_portfolio_summary (\<lambda>c. 0)
       [ex_hdr, ex_row ''BUY'' ''10'' ''10'' ''100'', ex_row ''SELL'' ''20'' ''10'' ''200''] =
     Dashboard [] 0"
    unfolding update_portfolio_summary_def
    by (simp add: ex_cols run_oversold summary_single ex_holding_def del: process_rows.simps)
  moreover have "codes [(asc ''2344'', ex_holding 10 100 20 200 0)] = [asc ''2344'']"
    by (simp add: codes_def ex_holding_def)
  ultimately show ?thesis
    by (simp add: ex_cols run_oversold del: process_rows.simps) (simp add: ex_holding_def)
qed

theorem C3_oversold_symbol_not_shown_witness:
  "update_portfolio_summary (\<lambda>c. 0)
       [ex_hdr, ex_row ''BUY'' ''10'' ''10'' ''100'', ex_row ''SELL'' ''20'' ''10'' ''200''] =
     Dashboard [] 0"
  using C3_oversold_symbol_not_shown by (rule conjunct1)

section \<open>Order of the rows\<close>

lemma run_buy_buy_sell:
  "process_rows std_cols init_state
       [ex_row ''BUY'' ''10'' ''10'' ''100'', ex_row ''BUY'' ''10'' ''20'' ''200'',
        ex_row ''SELL'' ''10'' ''15'' ''150''] =
     Inr \<lparr>portfolio = [(asc ''2344'', ex_holding 20 300 10 150 0)], total_realized_pl = 0\<rparr>"
  by (simp add: process_row_def read_buy_10_100 read_buy_10_200 read_sell_10_150 eval_row)

lemma run_buy_sell_buy:
  "process_rows std_cols init_state
       [ex_row ''BUY'' ''10'' ''10'' ''100'', ex_row ''SELL'' ''10'' ''15'' ''150'',
        ex_row ''BUY'' ''10'' ''20'' ''200''] =
     Inr \<lparr>portfolio = [(asc ''2344'', ex_holding 20 300 10 150 50)], total_realized_pl = 50\<rparr>"
  by (simp add: process_row_def read_buy_10_100 read_buy_10_200 read_sell_10_150 eval_row)

text \<open>
  C9. The same three rows (BUY 10 for 100, BUY 10 for 200, SELL 10 for 150) in two orders
  give two realized P/L figures: 0 when both purchases precede the sale, 50 when the sale
  comes between them.
\<close>

theorem C9_order_sensitive:
  "mset [ex_row ''BUY'' ''10'' ''10'' ''100'', ex_row ''BUY'' ''10'' ''20'' ''200'',
         ex_row ''SELL'' ''10'' ''15'' ''150''] =
   mset [ex_row ''BUY'' ''10'' ''10'' ''100'', ex_row ''SELL'' ''10'' ''15'' ''150'',
         ex_row ''BUY'' ''10'' ''20'' ''200'']
   \<and> update_portfolio_summary (\<lambda>c. 0)
       [ex_hdr, ex_row ''BUY'' ''10'' ''10'' ''100'', ex_row ''BUY'' ''10'' ''20'' ''200'',
        ex_row ''SELL'' ''10'' ''15'' ''150''] = Dashboard [ex_summary 10 15 0] 0
   \<and> update_portfolio_summary (\<lambda>c. 0)
       [ex_hdr, ex_row ''BUY'' ''10'' ''10'' ''100'', ex_row ''SELL'' ''10'' ''15'' ''150'',
        ex_row ''BUY'' ''10'' ''20'' ''200''] = Dashboard [ex_summary 10 15 50] 50"
proof (intro conjI)
  show "mset [ex_row ''BUY'' ''10'' ''10'' ''100'', ex_row ''BUY'' ''10'' ''20'' ''200'',
         ex_row ''SELL'' ''10'' ''15'' ''150''] =
   mset [ex_row ''BUY'' ''10'' ''10'' ''100'', ex_row ''SELL'' ''10'' ''15'' ''150'',
         ex_row ''BUY'' ''10'' ''20'' ''200'']"
    by (simp add: add.commute)
  show "update_portfolio_summary (\<lambda>c. 0)
       [ex_hdr, ex_row ''BUY'' ''10'' ''10'' ''100'', ex_row ''BUY'' ''10'' ''20'' ''200'',
        ex_row ''SELL'' ''10'' ''15'' ''150''] = Dashboard [ex_summary 10 15 0] 0"
    unfolding update_portfolio_summary_def
    by (simp add: ex_cols run_buy_buy_sell summary_single ex_holding_def ex_summary_def
        del: process_rows.simps)
  show "update_portfolio_summary (\<lambda>c. 0)
       [ex_hdr, ex_row ''BUY'' ''10'' ''10'' ''100'', ex_row ''SELL'' ''10'' ''15'' ''150'',
        ex_row ''BUY'' ''10'' ''20'' ''200''] = Dashboard [ex_summary 10 15 50] 50"
    unfolding update_portfolio_summary_def
    by (simp add: ex_cols run_buy_sell_buy summary_single ex_holding_def ex_summary_def
        del: process_rows.simps)
qed

section \<open>Rows that are neither BUY nor SELL\<close>

text \<open>
  C10. A row the loop processes whose upper-cased action label contains none of \<open>BUY\<close>,
  U+8CB7, \<open>SELL\<close>, U+8CE3 leaves the total realized P/L unchanged; an entry present
  before keeps its five accumulators, and an entry the row creates has all five at zero.
\<close>

theorem C10_unmatched_action_frame:
  assumes "process_row ix st row = Inr st'"
    and "\<not> contains (asc ''BUY'') (upper (strip (row ! idx_action ix)))"
    and "\<not> contains [0x8CB7] (upper (strip (row ! idx_action ix)))"
    and "\<not> contains (asc ''SELL'') (upper (strip (row ! idx_action ix)))"
    and "\<not> contains [0x8CE3] (upper (strip (row ! idx_action ix)))"
  shows "total_realized_pl st' = total_realized_pl st
       \<and> (\<forall>c d. map_of (portfolio st) c = Some d \<longrightarrow>
            (\<exists>d'. map_of (portfolio st') c = Some d' \<and> buy_qty d' = buy_qty d \<and>
                  buy_amt d' = buy_amt d \<and> sell_qty d' = sell_qty d \<and>
                  sell_amt d' = sell_amt d \<and> realized_pl d' = realized_pl d))
       \<and> (\<forall>c d'. map_of (portfolio st) c = None \<and> map_of (portfolio st') c = Some d' \<longrightarrow>
            buy_qty d' = 0 \<and> buy_amt d' = 0 \<and> sell_qty d' = 0 \<and> sell_amt d' = 0 \<and>
            realized_pl d' = 0)"
proof (cases "read_row ix row")
  case (Inl e)
  with assms(1) show ?thesis by (simp add: process_row_def)
next
  case (Inr ro)
  show ?thesis
  proof (cases ro)
    case None
    with Inr assms(1) show ?thesis by (auto simp: process_row_def)
  next
    case (Some r)
    with Inr have act: "r_action r = upper (strip (row ! idx_action ix))"
      by (auto simp: read_row_def split: if_splits option.splits)
    from Some Inr assms(1) have st': "st' = apply_row st r" by (simp add: process_row_def)
    show ?thesis
      using assms(2-5) unfolding st' act [symmetric]
      by (auto simp: apply_row_def Let_def update_conv' new_holding_def split: option.splits)
  qed
qed

theorem C10_unmatched_action_frame_witness:
  "process_row std_cols
       \<lparr>portfolio = [(asc ''2344'', ex_holding 100 1000 0 0 0)], total_realized_pl = 0\<rparr>
       (ex_row ''Dividend'' ''5'' ''1'' ''5'') =
     Inr \<lparr>portfolio = [(asc ''2344'', ex_holding 100 1000 0 0 0)], total_realized_pl = 0\<rparr>
   \<and> upper (strip (ex_row ''Dividend'' ''5'' ''1'' ''5'' ! idx_action std_cols)) = asc ''DIVIDEND''
   \<and> (\<exists>d'. map_of [(asc ''2344'', ex_holding 100 1000 0 0 0)] (asc ''2344'') = Some d' \<and>
          buy_qty d' = 100 \<and> buy_amt d' = 1000 \<and> sell_qty d' = 0 \<and> sell_amt d' = 0 \<and>
          realized_pl d' = 0)"
proof -
  let ?st = "\<lparr>portfolio = [(asc ''2344'', ex_holding 100 1000 0 0 0)], total_realized_pl = 0\<rparr>"
  let ?row = "ex_row ''Dividend'' ''5'' ''1'' ''5''"
  have run: "process_row std_cols ?st ?row = Inr ?st"
    by (simp add: process_row_def read_dividend eval_row)
  have act: "upper (strip (?row ! idx_action std_cols)) = asc ''DIVIDEND''"
    by (simp add: std_cols_def ex_row_def eval_str)
  have no: "\<not> contains (asc ''BUY'') (asc ''DIVIDEND'')" "\<not> contains [0x8CB7] (asc ''DIVIDEND'')"
    "\<not> contains (asc ''SELL'') (asc ''DIVIDEND'')" "\<not> contains [0x8CE3] (asc ''DIVIDEND'')"
    by (simp_all add: asc_def)
  have m: "map_of (portfolio ?st) (asc ''2344'') = Some (ex_holding 100 1000 0 0 0)" by simp
  from C10_unmatched_action_frame [of std_cols ?st ?row ?st, OF run] no m
  have "\<exists>d'. map_of (portfolio ?st) (asc ''2344'') = Some d' \<and>
          buy_qty d' = buy_qty (ex_holding 100 1000 0 0 0) \<and> buy_amt d' = buy_amt (ex_holding 100 1000 0 0 0) \<and>
          sell_qty d' = sell_qty (ex_holding 100 1000 0 0 0) \<and> sell_amt d' = sell_amt (ex_holding 100 1000 0 0 0) \<and>
          realized_pl d' = realized_pl (ex_holding 100 1000 0 0 0)"
    unfolding act by blast
  then show ?thesis using run act by (simp add: ex_holding_def)
qed

section \<open>The tabular report\<close>

lemma strptime_error: "strptime s = Inl e \<Longrightarrow> e = ValueError"
  by (auto simp: strptime_def split: list.splits if_splits prod.splits)

lemma Trade_init_error: "Trade_init b sy nm sd q p dt tot br oid = Inl e \<Longrightarrow> e = ValidationError"
  by (auto simp: Trade_init_def split: if_splits)

lemma fubon_row_body_error:
  "fubon_row_body b rd texts q p = Inl e \<Longrightarrow> e = ValueError \<or> e = ValidationError"
  by (auto simp: fubon_row_body_def split: option.splits sum.splits
      dest: strptime_error Trade_init_error)

lemma fubon_row_total: "fubon_row b rd texts = Inr (row_trade b rd texts)"
  by (auto simp: fubon_row_def row_trade_def Let_def split: sum.splits
      dest: fubon_row_body_error)

lemma fubon_rows_eq:
  "fubon_rows b rd rows trades = Inr (trades @ List.map_filter (row_trade b rd) rows)"
proof (induction rows arbitrary: trades)
  case Nil
  show ?case by (simp add: List.map_filter_simps)
next
  case (Cons texts rows)
  show ?case
    by (cases "row_trade b rd texts") (simp_all add: fubon_row_total Cons.IH List.map_filter_simps)
qed


lemma parse_fubon_report_rows:
  assumes "re_search match_date subject = Some (y, m, d)" and "soup body = Inr rows"
  shows "parse_fubon_report b soup subject body =
     Inr (List.map_filter (row_trade b (y @ [45] @ zfill2 m @ [45] @ zfill2 d)) rows)"
  using assms by (simp add: parse_fubon_report_def parse_fubon_try_def fubon_rows_eq)


lemma ex_subject_date: "re_search match_date ex_subject = Some (asc ''2026'', asc ''1'', asc ''19'')"
  by (simp add: ex_subject_def match_date_def asc_def isdigit_def)

lemma ex_subject_marker: "contains [0x5BCC, 0x90A6, 0x8B49, 0x5238] ex_subject"
  by (simp add: ex_subject_def)

lemma ex_report_date: "asc ''2026'' @ [45] @ zfill2 (asc ''1'') @ [45] @ zfill2 (asc ''19'') = asc ''2026-01-19''"
  by (simp add: zfill2_def asc_def)

lemma ex_strptime: "strptime (asc ''2026-01-19'' @ [32] @ asc ''09:40:05'') =
   Inr \<lparr>dt_year = 2026, dt_month = 1, dt_day = 19, dt_hour = 9, dt_minute = 40, dt_second = 5\<rparr>"
  by (simp add: strptime_def strptime_matches_def fmt_Y_def fmt_m_def fmt_d_def fmt_H_def fmt_M_def fmt_S_def
     lit_def spaces1_def two_chars_def one_char_def in_range_def days_in_month_def eval_str)

lemma ex_floats: "float_of_str (asc ''50'') = Some 50" "float_of_str (asc ''117.00'') = Some 117"
  by (simp_all add: eval_str)

lemma ex_numeric: "numeric_like (asc ''50'')" "numeric_like (asc ''117.00'')"
  by (simp_all add: numeric_like_def eval_str)

lemma ex_round: "round2 (50 * 117) = 5850"
  by (simp add: round2_def)

lemma ex_split: "split_symbol (asc ''2344'' @ [0x83EF, 0x90A6, 0x96FB]) = (asc ''2344'', [0x83EF, 0x90A6, 0x96FB])"
  by (simp add: split_symbol_def eval_str)

lemmas eval_report = row_trade_def fubon_row_def fubon_row_body_def has_marker_def
  numeric_like_def split_symbol_def Trade_init_def round2_def fubon_broker_def
  strptime_def strptime_matches_def fmt_Y_def fmt_m_def fmt_d_def fmt_H_def fmt_M_def fmt_S_def
  lit_def spaces1_def two_chars_def one_char_def in_range_def days_in_month_def eval_str

lemma ex_row_trade: "row_trade b (asc ''2026-01-19'') ex_report_row = Some ex_trade"
  by (cases b) (simp_all add: ex_report_row_def ex_trade_def eval_report)

text \<open>
  C2. For every subject with the broker marker whose date expression is that of 19 January
  2026, and every body whose rows (as the HTML library gives them) include the sample row,
  \<open>parse\<close> returns a list holding the record with symbol \<open>2344\<close>, the name U+83EF U+90A6
  U+96FB, side SELL, quantity 50, price 117, total amount 5850, order id \<open>ABC123\<close> and
  timestamp 2026-01-19 09:40:05; when the sample row is the only row, the list is that
  record alone.
\<close>

theorem C2_tabular_example:
  assumes "contains [0x5BCC, 0x90A6, 0x8B49, 0x5238] subject"
    and "re_search match_date subject = Some (asc ''2026'', asc ''1'', asc ''19'')"
    and "soup body = Inr rows"
    and "ex_report_row \<in> set rows"
  shows "(\<exists>trades. parse b soup now subject body = Inr trades \<and> ex_trade \<in> set trades)
       \<and> (rows = [ex_report_row] \<longrightarrow> parse b soup now subject body = Inr [ex_trade])"
proof -
  have p: "parse b soup now subject body =
      Inr (List.map_filter (row_trade b (asc ''2026-01-19'')) rows)"
    using parse_fubon_report_rows [of subject "asc ''2026''" "asc ''1''" "asc ''19''" soup body rows b,
        OF assms(2,3)] assms(1)
    unfolding ex_report_date by (simp only: parse_def if_True)
  have "ex_trade \<in> set (List.map_filter (row_trade b (asc ''2026-01-19'')) rows)"
    using assms(4) ex_row_trade [of b] by (force simp: List.map_filter_def image_iff)
  moreover have "List.map_filter (row_trade b (asc ''2026-01-19'')) [ex_report_row] = [ex_trade]"
    by (simp add: List.map_filter_simps ex_row_trade)
  ultimately show ?thesis using p by auto
qed

theorem C2_tabular_example_witness:
  "contains [0x5BCC, 0x90A6, 0x8B49, 0x5238] ex_subject
   \<and> re_search match_date ex_subject = Some (asc ''2026'', asc ''1'', asc ''19'')
   \<and> parse Pydantic (\<lambda>html. Inr [ex_report_row]) ex_now ex_subject [] = Inr [ex_trade]"
  using C2_tabular_example [of ex_subject "\<lambda>html. Inr [ex_report_row]" "[]" "[ex_report_row]"
      Pydantic ex_now]
    ex_subject_marker ex_subject_date
  by simp




text \<open>
  C7. \<open>parse\<close> returns a list on every subject and body, whatever the HTML library does:
  no exception reaches the caller.
\<close>

theorem C7_parse_never_raises: "\<exists>trades. parse b soup now subject body = Inr trades"
  by (auto simp: parse_def parse_fubon_report_def parse_regex_def split: sum.splits)

text \<open>
  C8. When the subject holds no date expression, the tabular extractor returns the empty
  list whatever the body holds, and so does \<open>parse\<close> on a subject with the broker marker.
\<close>

theorem C8_no_date_no_records:
  assumes "re_search match_date subject = None"
  shows "parse_fubon_report b soup subject body = Inr []
       \<and> (contains [0x5BCC, 0x90A6, 0x8B49, 0x5238] subject \<longrightarrow>
            parse b soup now subject body = Inr [])"
  using assms by (simp add: parse_def parse_fubon_report_def parse_fubon_try_def)

theorem C8_no_date_no_records_witness:
  "re_search match_date ex_subject_undated = None
   \<and> parse_fubon_report Pydantic (\<lambda>html. Inr [ex_report_row]) ex_subject_undated [] = Inr []
   \<and> parse Pydantic (\<lambda>html. Inr [ex_report_row]) ex_now ex_subject_undated [] = Inr []"
proof -
  have d: "re_search match_date ex_subject_undated = None"
    by (simp add: ex_subject_undated_def match_date_def asc_def isdigit_def)
  have c: "contains [0x5BCC, 0x90A6, 0x8B49, 0x5238] ex_subject_undated"
    by (simp add: ex_subject_undated_def)
  from C8_no_date_no_records [OF d, of Pydantic "\<lambda>html. Inr [ex_report_row]" "[]" ex_now] c d
  show ?thesis by simp
qed

section \<open>The key-value text\<close>

lemmas eval_regex = extracted_def m_symbol_def m_side_def m_quantity_def m_price_def m_order_id_def
  run_of_def cls_alnum_def cls_number_def eval_str

lemma ex_zero_fields:
  "extracted m_symbol ex_text_zero = Some (asc ''AB'')"
  "extracted m_side ex_text_zero = Some (asc ''BUY'')"
  "extracted m_quantity ex_text_zero = Some (asc ''0'')"
  "extracted m_price ex_text_zero = Some (asc ''5'')"
  "extracted m_order_id ex_text_zero = None"
  by (simp_all add: ex_text_zero_def eval_regex)

lemma ex_zero_floats:
  "float_of_str (replace_comma (asc ''0'')) = Some 0"
  "float_of_str (replace_comma (asc ''5'')) = Some 5"
  by (simp_all add: eval_str)

lemma ex_fields:
  "extracted m_symbol ex_text = Some (asc ''abc'')"
  "extracted m_side ex_text = Some (asc ''Sell'')"
  "extracted m_quantity ex_text = Some (asc ''1,000'')"
  "extracted m_price ex_text = Some (asc ''5.00'')"
  "extracted m_order_id ex_text = Some (asc ''A-1'')"
  by (simp_all add: ex_text_def eval_regex)

lemma ex_text_floats:
  "float_of_str (replace_comma (asc ''1,000'')) = Some 1000"
  "float_of_str (replace_comma (asc ''5.00'')) = Some 5"
  by (simp_all add: eval_str)

lemma re_search_Some: "re_search m s = Some g \<Longrightarrow> \<exists>s'. m s' = Some g"
  by (induction s) (auto split: option.splits)

lemma match_labels_Some: "match_labels ls cap s = Some g \<Longrightarrow> \<exists>s'. cap s' = Some g"
  by (induction ls) (auto split: option.splits)

lemma upper_char_letter:
  "upper_char k = upper_char x \<Longrightarrow> 65 \<le> k \<Longrightarrow> k \<le> 90 \<Longrightarrow> x = k \<or> x = k + 32"
  by (auto simp: upper_char_def split: if_splits)

lemma dropWhile_id: "xs \<noteq> [] \<Longrightarrow> \<not> P (hd xs) \<Longrightarrow> dropWhile P xs = xs"
  by (cases xs) auto

lemma strip_id:
  assumes "s \<noteq> []" and "\<not> isspace (hd s)" and "\<not> isspace (last s)"
  shows "strip s = s"
proof -
  have "dropWhile isspace s = s" using assms(1,2) by (rule dropWhile_id)
  moreover have "dropWhile isspace (rev s) = rev s"
    using assms(1,3) by (intro dropWhile_id) (simp_all add: hd_rev)
  ultimately show ?thesis by (simp add: strip_def)
qed

lemma match_lit_Cons:
  "match_lit (p # ps) s = Some r \<Longrightarrow>
     \<exists>c cs. s = c # cs \<and> upper_char p = upper_char c \<and> match_lit ps cs = Some r"
  by (cases s) (auto split: if_splits)

lemma match_lit_BUY:
  assumes "match_lit (asc ''BUY'') s \<noteq> None"
  shows "upper (strip (take 3 s)) = asc ''BUY''"
proof -
  from assms obtain r where m: "match_lit [66, 85, 89] s = Some r"
    by (auto simp: asc_def)
  from match_lit_Cons [OF m] obtain x s1 where s: "s = x # s1"
    and x: "upper_char 66 = upper_char x" and m1: "match_lit [85, 89] s1 = Some r" by blast
  from match_lit_Cons [OF m1] obtain y s2 where s1: "s1 = y # s2"
    and y: "upper_char 85 = upper_char y" and m2: "match_lit [89] s2 = Some r" by blast
  from match_lit_Cons [OF m2] obtain z s3 where s2: "s2 = z # s3"
    and z: "upper_char 89 = upper_char z" by blast
  have xs: "\<not> isspace x" using upper_char_letter [OF x] by (auto simp: isspace_def)
  have zs: "\<not> isspace z" using upper_char_letter [OF z] by (auto simp: isspace_def)
  have "strip [x, y, z] = [x, y, z]" using xs zs by (simp add: strip_id)
  then show ?thesis
    unfolding s s1 s2 using x y z by (simp add: upper_def asc_def) (simp add: upper_char_def)
qed

lemma match_lit_SELL:
  assumes "match_lit (asc ''SELL'') s \<noteq> None"
  shows "upper (strip (take 4 s)) = asc ''SELL''"
proof -
  from assms obtain r where m: "match_lit [83, 69, 76, 76] s = Some r"
    by (auto simp: asc_def)
  from match_lit_Cons [OF m] obtain x s1 where s: "s = x # s1"
    and x: "upper_char 83 = upper_char x" and m1: "match_lit [69, 76, 76] s1 = Some r" by blast
  from match_lit_Cons [OF m1] obtain y s2 where s1: "s1 = y # s2"
    and y: "upper_char 69 = upper_char y" and m2: "match_lit [76, 76] s2 = Some r" by blast
  from match_lit_Cons [OF m2] obtain z s3 where s2: "s2 = z # s3"
    and z: "upper_char 76 = upper_char z" and m3: "match_lit [76] s3 = Some r" by blast
  from match_lit_Cons [OF m3] obtain w s4 where s3: "s3 = w # s4"
    and w: "upper_char 76 = upper_char w" by blast
  have xs: "\<not> isspace x" using upper_char_letter [OF x] by (auto simp: isspace_def)
  have ws: "\<not> isspace w" using upper_char_letter [OF w] by (auto simp: isspace_def)
  have "strip [x, y, z, w] = [x, y, z, w]" using xs ws by (simp add: strip_id)
  then show ?thesis
    unfolding s s1 s2 s3 using x y z w by (simp add: upper_def asc_def) (simp add: upper_char_def)
qed

lemma extracted_side:
  assumes "extracted m_side txt = Some sd"
  shows "upper sd = asc ''BUY'' \<or> upper sd = asc ''SELL''"
proof -
  from assms obtain g where g: "re_search m_side txt = Some g" and sd: "sd = strip g"
    by (auto simp: extracted_def)
  from re_search_Some [OF g] obtain s1 where "m_side s1 = Some g" ..
  then obtain s2 where
    "(if match_lit (asc ''BUY'') s2 \<noteq> None then Some (take 3 s2)
      else if match_lit (asc ''SELL'') s2 \<noteq> None then Some (take 4 s2) else None) = Some g"
    unfolding m_side_def by (blast dest: match_labels_Some)
  then consider "match_lit (asc ''BUY'') s2 \<noteq> None" "g = take 3 s2"
    | "match_lit (asc ''SELL'') s2 \<noteq> None" "g = take 4 s2"
    by (auto split: if_splits)
  then show ?thesis
  proof cases
    case 1
    then show ?thesis unfolding sd using match_lit_BUY [of s2] by simp
  next
    case 2
    then show ?thesis unfolding sd using match_lit_SELL [of s2] by simp
  qed
qed

lemma Trade_init_fields:
  assumes "Trade_init b sy nm sd qty pr dt None br oid = Inr t"
  shows "side t = sd" and "quantity t = qty" and "price t = pr"
    and "total_amount t = round2 (qty * pr)" and "b = Pydantic \<Longrightarrow> 0 < qty \<and> 0 < pr"
  using assms by (auto simp: Trade_init_def not_le split: if_splits)

lemma parse_regex_fields:
  assumes "parse_regex b now txt = Inr (Some t)"
  obtains sy sd q p qty pr where "extracted m_symbol txt = Some sy"
    and "extracted m_side txt = Some sd" and "extracted m_quantity txt = Some q"
    and "extracted m_price txt = Some p" and "float_of_str (replace_comma q) = Some qty"
    and "float_of_str (replace_comma p) = Some pr"
    and "Trade_init b (upper sy) None (upper sd) qty pr now None (asc ''Unknown'')
           (extracted m_order_id txt) = Inr t"
  using assms
  by (auto simp: parse_regex_def parse_regex_try_def split: option.splits sum.splits)

text \<open>
  C4. The claim fails with the validating model: in the text \<open>Symbol: AB\<close>, \<open>Side: BUY\<close>,
  \<open>Quantity: 0\<close>, \<open>Price: 5\<close> the four fields are located and both numbers parse, and no
  record is returned, since pydantic rejects the quantity 0.
\<close>

theorem C4_zero_quantity_counterexample:
  "extracted m_symbol ex_text_zero = Some (asc ''AB'')
   \<and> extracted m_side ex_text_zero = Some (asc ''BUY'')
   \<and> extracted m_quantity ex_text_zero = Some (asc ''0'')
   \<and> extracted m_price ex_text_zero = Some (asc ''5'')
   \<and> float_of_str (replace_comma (asc ''0'')) = Some 0
   \<and> float_of_str (replace_comma (asc ''5'')) = Some 5
   \<and> parse_regex Pydantic ex_now ex_text_zero = Inr None"
  by (simp add: parse_regex_def parse_regex_try_def ex_zero_fields ex_zero_floats Trade_init_def)

text \<open>
  C4, amended. \<open>_parse_regex\<close> returns a record when the four fields are located, both
  numbers parse after the commas are removed, and both are positive. It returns a record
  only when the four fields are located and both numbers parse, and with the validating
  model only when both are positive. The record's symbol and side are the located texts in
  upper case, the side being \<open>BUY\<close> or \<open>SELL\<close>, its quantity and price the parsed numbers,
  its order id the located one if any. The result is a record or none, never an exception.
\<close>

theorem C4_regex_record:
  "((\<exists>sy sd q p qty pr.
        extracted m_symbol txt = Some sy \<and> extracted m_side txt = Some sd \<and>
        extracted m_quantity txt = Some q \<and> extracted m_price txt = Some p \<and>
        float_of_str (replace_comma q) = Some qty \<and> float_of_str (replace_comma p) = Some pr \<and>
        0 < qty \<and> 0 < pr)
      \<longrightarrow> (\<exists>t. parse_regex b now txt = Inr (Some t)))
   \<and> (\<forall>t. parse_regex b now txt = Inr (Some t) \<longrightarrow>
         (\<exists>sy sd q p.
            extracted m_symbol txt = Some sy \<and> extracted m_side txt = Some sd \<and>
            extracted m_quantity txt = Some q \<and> extracted m_price txt = Some p \<and>
            symbol t = upper sy \<and> side t = upper sd \<and>
            (side t = asc ''BUY'' \<or> side t = asc ''SELL'') \<and>
            float_of_str (replace_comma q) = Some (quantity t) \<and>
            float_of_str (replace_comma p) = Some (price t) \<and>
            order_id t = extracted m_order_id txt \<and>
            total_amount t = round2 (quantity t * price t) \<and>
            (b = Pydantic \<longrightarrow> 0 < quantity t \<and> 0 < price t)))
   \<and> (parse_regex b now txt = Inr None \<or> (\<exists>t. parse_regex b now txt = Inr (Some t)))"
proof (intro conjI allI impI)
  assume "\<exists>sy sd q p qty pr.
        extracted m_symbol txt = Some sy \<and> extracted m_side txt = Some sd \<and>
        extracted m_quantity txt = Some q \<and> extracted m_price txt = Some p \<and>
        float_of_str (replace_comma q) = Some qty \<and> float_of_str (replace_comma p) = Some pr \<and>
        0 < qty \<and> 0 < pr"
  then show "\<exists>t. parse_regex b now txt = Inr (Some t)"
    by (auto simp: parse_regex_def parse_regex_try_def Trade_init_def)
next
  show "parse_regex b now txt = Inr None \<or> (\<exists>t. parse_regex b now txt = Inr (Some t))"
    by (cases "parse_regex_try b now txt") (auto simp: parse_regex_def)
next
  fix t assume t: "parse_regex b now txt = Inr (Some t)"
  then obtain sy sd q p qty pr where f: "extracted m_symbol txt = Some sy"
    "extracted m_side txt = Some sd" "extracted m_quantity txt = Some q"
    "extracted m_price txt = Some p" "float_of_str (replace_comma q) = Some qty"
    "float_of_str (replace_comma p) = Some pr"
    and i: "Trade_init b (upper sy) None (upper sd) qty pr now None (asc ''Unknown'')
       (extracted m_order_id txt) = Inr t"
    by (rule parse_regex_fields)
  from i have r: "symbol t = upper sy" "order_id t = extracted m_order_id txt"
    by (auto simp: Trade_init_def split: if_splits)
  note g = Trade_init_fields [OF i]
  have s: "side t = asc ''BUY'' \<or> side t = asc ''SELL''"
    using extracted_side [OF f(2)] g(1) by simp
  show "\<exists>sy sd q p.
            extracted m_symbol txt = Some sy \<and> extracted m_side txt = Some sd \<and>
            extracted m_quantity txt = Some q \<and> extracted m_price txt = Some p \<and>
            symbol t = upper sy \<and> side t = upper sd \<and>
            (side t = asc ''BUY'' \<or> side t = asc ''SELL'') \<and>
            float_of_str (replace_comma q) = Some (quantity t) \<and>
            float_of_str (replace_comma p) = Some (price t) \<and>
            order_id t = extracted m_order_id txt \<and>
            total_amount t = round2 (quantity t * price t) \<and>
            (b = Pydantic \<longrightarrow> 0 < quantity t \<and> 0 < price t)"
    using f r g s
    by (intro exI [of _ sy] exI [of _ sd] exI [of _ q] exI [of _ p]) simp
qed

theorem C4_regex_record_witness:
  "extracted m_symbol ex_text = Some (asc ''abc'')
   \<and> extracted m_side ex_text = Some (asc ''Sell'')
   \<and> extracted m_quantity ex_text = Some (asc ''1,000'')
   \<and> extracted m_price ex_text = Some (asc ''5.00'')
   \<and> (\<exists>t. parse_regex Pydantic ex_now ex_text = Inr (Some t) \<and> symbol t = asc ''ABC''
         \<and> side t = asc ''SELL'' \<and> quantity t = 1000 \<and> price t = 5
         \<and> total_amount t = 5000 \<and> order_id t = Some (asc ''A-1''))"
proof -
  note f = ex_fields
  note c4 = C4_regex_record [of ex_text Pydantic ex_now]
  have lhs: "\<exists>sy sd q p qty pr.
         extracted m_symbol ex_text = Some sy \<and> extracted m_side ex_text = Some sd \<and>
         extracted m_quantity ex_text = Some q \<and> extracted m_price ex_text = Some p \<and>
         float_of_str (replace_comma q) = Some qty \<and> float_of_str (replace_comma p) = Some pr \<and>
         0 < qty \<and> 0 < pr"
    by (rule exI [of _ "asc ''abc''"], rule exI [of _ "asc ''Sell''"],
        rule exI [of _ "asc ''1,000''"], rule exI [of _ "asc ''5.00''"],
        rule exI [of _ 1000], rule exI [of _ 5])
      (simp add: f ex_text_floats)
  from c4 [THEN conjunct1, rule_format, OF lhs] obtain t where
    t: "parse_regex Pydantic ex_now ex_text = Inr (Some t)" ..
  have u: "upper (asc ''abc'') = asc ''ABC''" "upper (asc ''Sell'') = asc ''SELL''"
    by (simp_all add: eval_str)
  have r: "round2 5000 = 5000" by (simp add: round2_def)
  from c4 [THEN conjunct2, THEN conjunct1, rule_format, OF t]
  have "symbol t = asc ''ABC'' \<and> side t = asc ''SELL'' \<and> quantity t = 1000 \<and>
    price t = 5 \<and> order_id t = Some (asc ''A-1'') \<and> total_amount t = 5000"
    by (simp add: f ex_text_floats u r)
  with t f show ?thesis by simp
qed

section \<open>Numbers that pass the check of the report\<close>

text \<open>
  A cell that matches the numeric pattern of the report always parses, to a non-negative
  number: after the check, \<open>float()\<close> cannot raise.
\<close>

lemma isdigit_not_space: "isdigit c \<Longrightarrow> \<not> isspace c"
  by (auto simp: isdigit_def isspace_def)

lemma strip_snoc_newline:
  assumes "s \<noteq> []" and "\<not> isspace (hd s)" and "\<not> isspace (last s)"
  shows "strip (s @ [10]) = s"
proof -
  have a: "dropWhile isspace (s @ [10]) = s @ [10]"
    using assms(1,2) by (cases s) auto
  have b: "dropWhile isspace (rev s) = rev s"
    using assms(1,3) by (intro dropWhile_id) (simp_all add: hd_rev)
  show ?thesis by (simp add: strip_def a b isspace_def)
qed

lemma float_of_str_plain:
  assumes ds: "ds \<noteq> []" "list_all isdigit ds" and fs: "list_all isdigit fs"
    and rr: "rr = [] \<or> rr = 46 # fs" and tl: "e = [] \<or> e = [10]"
  shows "\<exists>v. float_of_str (ds @ rr @ e) = Some v \<and> 0 \<le> v"
proof -
  let ?s = "ds @ rr"
  have ne: "?s \<noteq> []" using ds by simp
  have hd: "isdigit (hd ?s)" using ds by (cases ds) auto
  have ld: "isdigit (last ds)" using ds by (simp add: list_all_iff)
  have lf: "fs \<noteq> [] \<Longrightarrow> isdigit (last fs)" using fs by (simp add: list_all_iff)
  have "isdigit (last ?s) \<or> last ?s = 46"
    using rr ld lf ds by (cases "fs = []") auto
  then have last: "\<not> isspace (last ?s)"
    by (auto simp: isdigit_not_space) (simp add: isspace_def)
  have st: "strip (ds @ rr @ e) = ?s"
    using tl strip_id [OF ne isdigit_not_space [OF hd] last]
      strip_snoc_newline [OF ne isdigit_not_space [OF hd] last]
    by auto
  have nosign: "hd ?s \<noteq> 45" "hd ?s \<noteq> 43" using hd by (auto simp: isdigit_def)
  have tw: "takeWhile isdigit ?s = ds" "dropWhile isdigit ?s = rr"
    using ds rr by (auto simp: list_all_iff isdigit_def)
  have tf: "takeWhile isdigit fs = fs" "dropWhile isdigit fs = []"
    using fs by (auto simp: list_all_iff)
  show ?thesis
    unfolding float_of_str_def st
    using rr ne nosign ds
    by (auto simp: Let_def tw tf float_exponent_def simp del: append_is_Nil_conv)
qed

lemma numeric_like_float:
  assumes "numeric_like s"
  shows "\<exists>v. float_of_str s = Some v \<and> 0 \<le> v"
proof -
  define ds where "ds = takeWhile isdigit s"
  define r1 where "r1 = dropWhile isdigit s"
  define r2 where "r2 = (case r1 of c # r \<Rightarrow> if c = 46 then r else r1 | [] \<Rightarrow> r1)"
  define fs where "fs = takeWhile isdigit r2"
  define r3 where "r3 = dropWhile isdigit r2"
  have s: "s = ds @ r1" by (simp add: ds_def r1_def)
  have r2: "r2 = fs @ r3" by (simp add: fs_def r3_def)
  have ds: "ds \<noteq> []" and r3: "r3 = [] \<or> r3 = [10]"
    using assms unfolding numeric_like_def Let_def r3_def r2_def r1_def ds_def by simp_all
  have dd: "list_all isdigit ds" unfolding ds_def list_all_iff by (auto dest: set_takeWhileD)
  have df: "list_all isdigit fs" unfolding fs_def list_all_iff by (auto dest: set_takeWhileD)
  have r1nd: "r1 \<noteq> [] \<Longrightarrow> \<not> isdigit (hd r1)"
    unfolding r1_def by (rule hd_dropWhile)
  consider "r1 = []" | r where "r1 = 46 # r" "r2 = r" | "r1 \<noteq> []" "hd r1 \<noteq> 46" "r2 = r1"
    by (cases r1) (auto simp: r2_def)
  then obtain rr e where "s = ds @ rr @ e" "rr = [] \<or> rr = 46 # fs" "e = [] \<or> e = [10]"
  proof cases
    case 1
    then show ?thesis using that [of "[]" "[]"] s by simp
  next
    case 2
    then show ?thesis using that [of "46 # fs" r3] s r2 r3 by simp
  next
    case 3
    with r1nd have "fs = []" unfolding fs_def by (cases r1) auto
    with 3 r2 r3 have "r1 = [10]" by auto
    then show ?thesis using that [of "[]" "[10]"] s by simp
  qed
  then show ?thesis using float_of_str_plain [OF ds dd df] by blast
qed

section \<open>The records of both extractors\<close>

text \<open>
  Every record \<open>parse\<close> returns has side \<open>BUY\<close> or \<open>SELL\<close> and a total amount of
  \<open>round(quantity * price, 2)\<close>; with the validating model its quantity and price are
  positive.
\<close>

lemma row_trade_fields:
  assumes "row_trade b rd texts = Some t"
  shows "(side t = asc ''BUY'' \<or> side t = asc ''SELL'')
       \<and> total_amount t = round2 (quantity t * price t)
       \<and> (b = Fallback \<or> (0 < quantity t \<and> 0 < price t))"
proof -
  from assms obtain qty pr ts where
    i: "Trade_init b (fst (split_symbol (texts ! 0))) (Some (snd (split_symbol (texts ! 0))))
          (if contains [0x8CE3] (texts ! 1) then asc ''SELL'' else asc ''BUY'')
          qty pr ts None fubon_broker (Some (texts ! 5)) = Inr t"
    by (auto simp: row_trade_def fubon_row_def fubon_row_body_def
        split: if_splits option.splits sum.splits)
  show ?thesis
    using Trade_init_fields [OF i] by (cases b) auto
qed

lemma extraction_invariants:
  assumes "parse b soup now subject body = Inr trades" and "t \<in> set trades"
  shows "(side t = asc ''BUY'' \<or> side t = asc ''SELL'')
       \<and> total_amount t = round2 (quantity t * price t)
       \<and> (b = Fallback \<or> (0 < quantity t \<and> 0 < price t))"
proof (cases "contains [0x5BCC, 0x90A6, 0x8B49, 0x5238] subject")
  case True
  with assms(1) have "parse_fubon_report b soup subject body = Inr trades"
    by (simp add: parse_def)
  with assms(2) obtain y m d rows where "soup body = Inr rows"
    and "trades = List.map_filter (row_trade b (y @ [45] @ zfill2 m @ [45] @ zfill2 d)) rows"
    by (auto simp: parse_fubon_report_def parse_fubon_try_def fubon_rows_eq
        split: option.splits sum.splits)
  with assms(2) obtain texts where
    "row_trade b (y @ [45] @ zfill2 m @ [45] @ zfill2 d) texts = Some t"
    by (auto simp: List.map_filter_def)
  then show ?thesis by (rule row_trade_fields)
next
  case False
  with assms have p: "parse_regex b now body = Inr (Some t)"
    by (auto simp: parse_def split: sum.splits option.splits)
  from p obtain sy sd q p qty pr where sd: "extracted m_side body = Some sd"
    and i: "Trade_init b (upper sy) None (upper sd) qty pr now None (asc ''Unknown'')
           (extracted m_order_id body) = Inr t"
    by (rule parse_regex_fields)
  show ?thesis
    using Trade_init_fields [OF i] extracted_side [OF sd] by (cases b) auto
qed

text \<open>
  C6. Without pydantic the constraint \<open>gt=0\<close> is not checked: on the text \<open>Symbol: AB\<close>,
  \<open>Side: BUY\<close>, \<open>Quantity: 0\<close>, \<open>Price: 5\<close> the fallback model yields a record of quantity
  0, where the validating model yields none.
\<close>

theorem C6_fallback_accepts_zero_quantity:
  "\<not> contains [0x5BCC, 0x90A6, 0x8B49, 0x5238] (asc ''Order filled'')
   \<and> parse Fallback soup now (asc ''Order filled'') ex_text_zero =
       Inr [\<lparr>symbol = asc ''AB'', stock_name = None, side = asc ''BUY'', quantity = 0, price = 5,
             date = now, total_amount = 0, broker = asc ''Unknown'', order_id = None\<rparr>]
   \<and> parse Pydantic soup now (asc ''Order filled'') ex_text_zero = Inr []"
proof -
  have c: "\<not> contains [0x5BCC, 0x90A6, 0x8B49, 0x5238] (asc ''Order filled'')"
    by (simp add: asc_def)
  have u: "upper (asc ''AB'') = asc ''AB''" "upper (asc ''BUY'') = asc ''BUY''"
    by (simp_all add: eval_str)
  show ?thesis
    by (simp add: c parse_def parse_regex_def parse_regex_try_def ex_zero_fields ex_zero_floats
        u Trade_init_def round2_def)
qed

end
